theory Spec2Isabelle
  imports Main "HOL-Library.Word"
begin

unbundle bit_operations_syntax

section \<open>Data model\<close>

text \<open>
  The entities the authentication service and its controller handle. A \<open>User\<close> row
  carries the generated id, the login and the stored password hash; \<open>ICreateUserDto\<close>
  is what \<open>createUser\<close> receives; \<open>IUserPayload\<close> is the object the controller
  builds from a user and hands to the token signer. Ids are the store's generated keys
  and clock readings are whole seconds since the epoch (what \<open>jsonwebtoken\<close> puts in
  \<open>iat\<close> and \<open>exp\<close>), both natural numbers.
\<close>

record user =
  id_user :: nat
  login_user :: string
  password_user :: string

record createUserDto =
  login_dto :: string
  password_dto :: string

record userPayload =
  id_payload :: nat
  login_payload :: string

text \<open>
  Everything a callee can throw or reject with. \<open>JwtError\<close> carries the message of
  the \<open>Error\<close> thrown by \<open>jsonwebtoken\<close>; \<open>StorageError\<close> is a rejected
  promise of the persistence layer; \<open>AppError\<close> is the application's own error
  class with its status code and message, which the login handler tests for.
\<close>

datatype error =
    JwtError string
  | StorageError
  | AppError nat string

subsection \<open>SHA-256 and the HMAC key\<close>

text \<open>
  Strings are byte strings (a secret is used as its UTF-8 bytes). HMAC-SHA256 does not
  use the secret as it is: a secret longer than the 64-byte block is replaced by its
  SHA-256 digest, and the result is padded with zero bytes to 64 bytes. Two different
  secrets with the same prepared key therefore give the same signatures. SHA-256 is
  written out over 32-bit words, whose sums wrap.
\<close>

type_synonym word32 = "32 word"

definition round_constants :: "word32 list" where
  "round_constants =
     [1116352408, 1899447441, 3049323471, 3921009573, 961987163, 1508970993,
      2453635748, 2870763221, 3624381080, 310598401, 607225278, 1426881987,
      1925078388, 2162078206, 2614888103, 3248222580, 3835390401, 4022224774,
      264347078, 604807628, 770255983, 1249150122, 1555081692, 1996064986,
      2554220882, 2821834349, 2952996808, 3210313671, 3336571891, 3584528711,
      113926993, 338241895, 666307205, 773529912, 1294757372, 1396182291,
      1695183700, 1986661051, 2177026350, 2456956037, 2730485921, 2820302411,
      3259730800, 3345764771, 3516065817, 3600352804, 4094571909, 275423344,
      430227734, 506948616, 659060556, 883997877, 958139571, 1322822218,
      1537002063, 1747873779, 1955562222, 2024104815, 2227730452, 2361852424,
      2428436474, 2756734187, 3204031479, 3329325298]"

definition initial_hash :: "word32 list" where
  "initial_hash =
     [1779033703, 3144134277, 1013904242, 2773480762,
      1359893119, 2600822924, 528734635, 1541459225]"

definition pick_bits :: "word32 \<Rightarrow> word32 \<Rightarrow> word32 \<Rightarrow> word32" where
  "pick_bits x y z = (x AND y) XOR (NOT x AND z)"

definition majority :: "word32 \<Rightarrow> word32 \<Rightarrow> word32 \<Rightarrow> word32" where
  "majority x y z = (x AND y) XOR (x AND z) XOR (y AND z)"

definition big_sigma0 :: "word32 \<Rightarrow> word32" where
  "big_sigma0 x = word_rotr 2 x XOR word_rotr 13 x XOR word_rotr 22 x"

definition big_sigma1 :: "word32 \<Rightarrow> word32" where
  "big_sigma1 x = word_rotr 6 x XOR word_rotr 11 x XOR word_rotr 25 x"

definition small_sigma0 :: "word32 \<Rightarrow> word32" where
  "small_sigma0 x = word_rotr 7 x XOR word_rotr 18 x XOR drop_bit 3 x"

definition small_sigma1 :: "word32 \<Rightarrow> word32" where
  "small_sigma1 x = word_rotr 17 x XOR word_rotr 19 x XOR drop_bit 10 x"

text \<open>The \<open>n\<close> low bytes of a word, most significant first, and a byte as a word.\<close>

definition bytes_of :: "nat \<Rightarrow> 'a::len word \<Rightarrow> string" where
  "bytes_of n w = map (\<lambda>i. char_of (unat (drop_bit (8 * (n - 1 - i)) w AND 255))) [0..<n]"

definition byte_of :: "char \<Rightarrow> word32" where
  "byte_of c = of_nat (of_char c)"

text \<open>
  The message is followed by the byte 128, zero bytes up to 56 modulo 64, and its length
  in bits as 8 bytes; the padded message is read as big-endian words in blocks of 16.
\<close>

definition sha_pad :: "string \<Rightarrow> string" where
  "sha_pad m =
     m @ [char_of (128 :: nat)]
       @ replicate ((119 - length m mod 64) mod 64) (char_of (0 :: nat))
       @ bytes_of 8 (of_nat (8 * length m) :: 64 word)"

fun words_of :: "string \<Rightarrow> word32 list" where
  "words_of (a # b # c # d # rest) =
     (push_bit 24 (byte_of a) + push_bit 16 (byte_of b) + push_bit 8 (byte_of c) + byte_of d)
       # words_of rest"
| "words_of rest = []"

fun blocks_of :: "nat \<Rightarrow> word32 list \<Rightarrow> word32 list list" where
  "blocks_of 0 ws = []"
| "blocks_of (Suc n) ws = take 16 ws # blocks_of n (drop 16 ws)"

definition schedule :: "word32 list \<Rightarrow> word32 list" where
  "schedule block =
     fold (\<lambda>t w. w @ [small_sigma1 (w ! (t - 2)) + w ! (t - 7)
                        + small_sigma0 (w ! (t - 15)) + w ! (t - 16)])
          [16..<64] block"

type_synonym sha_state =
  "word32 \<times> word32 \<times> word32 \<times> word32 \<times> word32 \<times> word32 \<times> word32 \<times> word32"

definition sha_round :: "word32 \<times> word32 \<Rightarrow> sha_state \<Rightarrow> sha_state" where
  "sha_round kw s =
     (case s of (a, b, c, d, e, f, g, h) \<Rightarrow>
        (let t1 = h + big_sigma1 e + pick_bits e f g + fst kw + snd kw;
             t2 = big_sigma0 a + majority a b c
         in (t1 + t2, a, b, c, d + t1, e, f, g)))"

definition compress :: "word32 list \<Rightarrow> sha_state \<Rightarrow> sha_state" where
  "compress block s =
     (case (s, fold sha_round (zip round_constants (schedule block)) s) of
        ((a, b, c, d, e, f, g, h), (a', b', c', d', e', f', g', h')) \<Rightarrow>
          (a + a', b + b', c + c', d + d', e + e', f + f', g + g', h + h'))"

definition digest_bytes :: "sha_state \<Rightarrow> string" where
  "digest_bytes s =
     (case s of (a, b, c, d, e, f, g, h) \<Rightarrow>
        concat (map (bytes_of 4) [a, b, c, d, e, f, g, h]))"

definition sha256 :: "string \<Rightarrow> string" where
  "sha256 m =
     (let ws = words_of (sha_pad m)
      in digest_bytes
           (fold compress (blocks_of (length ws div 16) ws)
              (initial_hash ! 0, initial_hash ! 1, initial_hash ! 2, initial_hash ! 3,
               initial_hash ! 4, initial_hash ! 5, initial_hash ! 6, initial_hash ! 7)))"

definition hmac_key :: "string \<Rightarrow> string" where
  "hmac_key k =
     (let k0 = (if 64 < length k then sha256 k else k)
      in k0 @ replicate (64 - length k0) (char_of (0 :: nat)))"

subsection \<open>The \<open>jsonwebtoken\<close> library\<close>

text \<open>
  A token is kept structured instead of as its base64 text: the claims
  (the payload with \<open>iat\<close> and \<open>exp\<close>) and the signature. The signature is
  the constructor \<open>HS256\<close> over the prepared 64-byte key (\<open>hmac_key\<close> of the
  secret) and the signed claims: signatures agree when prepared key and claims agree,
  and the compression to 32 bytes after that is idealised as free of collisions.
\<close>

datatype signature = HS256 string userPayload nat nat

record jwt =
  payload_jwt :: userPayload
  iat_jwt :: nat
  exp_jwt :: nat
  signature_jwt :: signature

text \<open>
  The \<open>expiresIn\<close> option is a time span string, a decimal number followed by a
  unit letter (the forms \<open>10s\<close> and \<open>15d\<close> of the source); its value is in
  seconds.
\<close>

fun unit_seconds :: "char \<Rightarrow> nat option" where
  "unit_seconds c =
     (if c = CHR ''s'' then Some 1
      else if c = CHR ''m'' then Some 60
      else if c = CHR ''h'' then Some (60 * 60)
      else if c = CHR ''d'' then Some (24 * 60 * 60)
      else None)"

text \<open>A decimal digit is a character with code 48 to 57.\<close>

definition digit_value :: "char \<Rightarrow> nat option" where
  "digit_value c =
     (let code = (of_char c :: nat)
      in if 48 \<le> code \<and> code \<le> 57 then Some (code - 48) else None)"

fun decimal :: "nat \<Rightarrow> string \<Rightarrow> nat option" where
  "decimal acc [] = Some acc"
| "decimal acc (c # cs) =
     (case digit_value c of
        None \<Rightarrow> None
      | Some v \<Rightarrow> decimal (10 * acc + v) cs)"

definition timespan :: "string \<Rightarrow> nat option" where
  "timespan s =
     (if length s < 2 then None
      else (case (decimal 0 (butlast s), unit_seconds (last s)) of
              (Some n, Some u) \<Rightarrow> Some (n * u)
            | _ \<Rightarrow> None))"

text \<open>
  \<open>jwt.sign(payload, secretOrPrivateKey, { expiresIn })\<close> at clock reading \<open>now\<close>.
  The secret is the value of an environment variable, so it may be undefined; an
  undefined or empty secret makes \<open>sign\<close> throw.
\<close>

definition jwt_sign :: "userPayload \<Rightarrow> string option \<Rightarrow> string \<Rightarrow> nat \<Rightarrow> error + jwt" where
  "jwt_sign payload secretOrPrivateKey expiresIn now =
     (case secretOrPrivateKey of
        None \<Rightarrow> Inl (JwtError ''secretOrPrivateKey must have a value'')
      | Some k \<Rightarrow>
          if k = [] then Inl (JwtError ''secretOrPrivateKey must have a value'')
          else (case timespan expiresIn of
                  None \<Rightarrow> Inl (JwtError ''expiresIn should be a number of seconds or string representing a timespan'')
                | Some span \<Rightarrow>
                    Inr \<lparr> payload_jwt = payload, iat_jwt = now, exp_jwt = now + span,
                          signature_jwt = HS256 (hmac_key k) payload now (now + span) \<rparr>))"

text \<open>
  \<open>jwt.verify(token, secretOrPublicKey)\<close> at clock reading \<open>now\<close>: the signature
  is recomputed with the given secret (through the same key preparation) and compared,
  then the expiry is checked; a token is expired from the second \<open>exp\<close> on.
\<close>

definition jwt_verify :: "jwt \<Rightarrow> string option \<Rightarrow> nat \<Rightarrow> error + userPayload" where
  "jwt_verify token secretOrPublicKey now =
     (case secretOrPublicKey of
        None \<Rightarrow> Inl (JwtError ''secret or public key must be provided'')
      | Some k \<Rightarrow>
          if k = [] then Inl (JwtError ''secret or public key must be provided'')
          else if signature_jwt token
                  = HS256 (hmac_key k) (payload_jwt token) (iat_jwt token) (exp_jwt token)
          then (if exp_jwt token \<le> now then Inl (JwtError ''jwt expired'')
                else Inr (payload_jwt token))
          else Inl (JwtError ''invalid signature''))"

subsection \<open>The \<open>bcrypt\<close> library\<close>

text \<open>
  The password hasher is an external library whose two entry points the service
  delegates to. It is a parameter of the model: \<open>hash_bcrypt data rounds\<close> is the
  string \<open>bcrypt.hash(data, rounds)\<close> resolves to on this call (it draws its own
  salt), \<open>compare_bcrypt data encrypted\<close> what \<open>bcrypt.compare(data, encrypted)\<close>
  resolves to.
\<close>

record bcrypt =
  hash_bcrypt :: "string \<Rightarrow> nat \<Rightarrow> string"
  compare_bcrypt :: "string \<Rightarrow> string \<Rightarrow> bool"

subsection \<open>Persistent state and configuration\<close>

text \<open>
  A row of the \<open>Token\<close> entity, and the database: the two tables in insertion
  order, and whether the store answers (an awaited query on an unreachable store
  rejects). The process environment holds the two signing secrets, each possibly unset.
\<close>

record tokenRow =
  token_row :: jwt
  user_id_row :: nat

record db =
  users :: "user list"
  tokens :: "tokenRow list"
  reachable :: bool

record env =
  ACCESS_SECRET_TOKEN :: "string option"
  REFRESH_SECRET_TOKEN :: "string option"

section \<open>The authentication service\<close>

definition findUser :: "db \<Rightarrow> string \<Rightarrow> error + user option" where
  "findUser d login =
     (if reachable d then Inr (find (\<lambda>u. login_user u = login) (users d))
      else Inl StorageError)"


text \<open>
  \<open>User.create(user).save()\<close>: the store generates the id (here one more than the
  largest id in use) and appends the row.
\<close>

definition createUser :: "createUserDto \<Rightarrow> db \<Rightarrow> db" where
  "createUser dto d =
     d \<lparr> users := users d @
            [\<lparr> id_user = Suc (fold max (map id_user (users d)) 0),
               login_user = login_dto dto,
               password_user = password_dto dto \<rparr>] \<rparr>"

definition comparePasswords :: "bcrypt \<Rightarrow> user \<Rightarrow> string \<Rightarrow> bool" where
  "comparePasswords bc u password = compare_bcrypt bc password (password_user u)"

definition createRefreshToken :: "nat \<Rightarrow> jwt \<Rightarrow> db \<Rightarrow> db" where
  "createRefreshToken user_id token d =
     d \<lparr> tokens := tokens d @ [\<lparr> token_row = token, user_id_row = user_id \<rparr>] \<rparr>"

definition signAccessToken :: "env \<Rightarrow> nat \<Rightarrow> userPayload \<Rightarrow> error + jwt" where
  "signAccessToken e now userPayload =
     jwt_sign userPayload (ACCESS_SECRET_TOKEN e) ''10s'' now"

definition signRefreshToken :: "env \<Rightarrow> nat \<Rightarrow> userPayload \<Rightarrow> error + jwt" where
  "signRefreshToken e now userPayload =
     jwt_sign userPayload (REFRESH_SECRET_TOKEN e) ''15d'' now"

text \<open>
  The controller calls the lookup by login and the insertion of a token row under the
  names \<open>getUserByLogin\<close> and \<open>createToken\<close>; the service in the sources
  declares these two operations as \<open>findUser\<close> and \<open>createRefreshToken\<close>.
\<close>

definition getUserByLogin :: "db \<Rightarrow> string \<Rightarrow> error + user option" where
  "getUserByLogin d login = findUser d login"

definition createToken :: "nat \<Rightarrow> jwt \<Rightarrow> db \<Rightarrow> db" where
  "createToken user_id token d = createRefreshToken user_id token d"

text \<open>
  Modelled from the spec: \<open>deleteToken\<close>, which the logout handler calls, is not
  among the service's functions in the sources. The Session Registry's
  \<open>delete(token, userId)\<close> removes the row matching both fields, and deleting a
  row that does not exist is a no-op.
\<close>

definition deleteToken :: "jwt \<Rightarrow> nat \<Rightarrow> db \<Rightarrow> db" where
  "deleteToken token user_id d =
     d \<lparr> tokens := filter (\<lambda>r. \<not> (token_row r = token \<and> user_id_row r = user_id)) (tokens d) \<rparr>"

text \<open>
  Modelled from the spec: the Session Registry's \<open>exists(token, userId)\<close>, whose
  code is not among the sources: whether a row with both fields is present.
\<close>

definition exists_token :: "db \<Rightarrow> jwt \<Rightarrow> nat \<Rightarrow> bool" where
  "exists_token d token user_id =
     (\<lparr> token_row = token, user_id_row = user_id \<rparr> \<in> set (tokens d))"

text \<open>
  Modelled from the spec: \<open>verifyRefreshIsActive(token, userId)\<close>, whose code (the
  authentication middleware) is not among the sources. A refresh token is valid by
  signature, expiry and presence in the Session Registry: the token must verify against
  the refresh secret and its row must exist.
\<close>

definition verifyRefreshIsActive :: "env \<Rightarrow> nat \<Rightarrow> db \<Rightarrow> jwt \<Rightarrow> nat \<Rightarrow> bool" where
  "verifyRefreshIsActive e now d token user_id =
     (case jwt_verify token (REFRESH_SECRET_TOKEN e) now of
        Inl err \<Rightarrow> False
      | Inr payload \<Rightarrow> exists_token d token user_id)"

section \<open>The controller\<close>

text \<open>
  A handler reads the request (the body, or what the \<open>authUser\<close> middleware left
  in \<open>res.locals\<close>) and the database, and ends with an outcome: the response it
  sent, if any; the persistence calls it started without awaiting them; and what it
  logged. The handler never changes the database itself: an unawaited call takes effect
  only when its promise settles, after the handler has run on to its response.
\<close>

record body =
  login_body :: string
  password_body :: string

record locals =
  auth_locals :: bool
  refreshToken_locals :: jwt
  user_locals :: userPayload

datatype cookieValue = TokenValue jwt | StringValue string | NumberValue nat

record cookie =
  name_cookie :: string
  value_cookie :: cookieValue
  maxAge_cookie :: nat
  httpOnly_cookie :: bool
  path_cookie :: string

datatype reply = Send nat string | Redirect nat string

record response =
  cookies :: "cookie list"
  cleared :: "string list"
  reply :: reply

datatype op =
    CreateUser createUserDto
  | CreateToken nat jwt
  | DeleteToken jwt nat

record outcome =
  sent :: "response option"
  detached :: "op list"
  logged :: "error list"

definition plain :: "reply \<Rightarrow> response" where
  "plain r = \<lparr> cookies = [], cleared = [], reply = r \<rparr>"

definition replied :: "response \<Rightarrow> op list \<Rightarrow> outcome" where
  "replied r started = \<lparr> sent = Some r, detached = started, logged = [] \<rparr>"

subsection \<open>\<open>POST /register\<close>\<close>


subsection \<open>\<open>POST /login\<close>\<close>

definition login_catch :: "op list \<Rightarrow> error \<Rightarrow> outcome" where
  "login_catch started err =
     \<lparr> sent = Some (case err of
                      AppError statusCode message \<Rightarrow> plain (Send statusCode message)
                    | _ \<Rightarrow> plain (Send 400 ''unknow error'')),
       detached = started,
       logged = [err] \<rparr>"

definition login_cookies :: "user \<Rightarrow> jwt \<Rightarrow> jwt \<Rightarrow> cookie list" where
  "login_cookies u accessToken refreshToken =
     [ \<lparr> name_cookie = ''accessToken'', value_cookie = TokenValue accessToken,
         maxAge_cookie = 1000 * 15, httpOnly_cookie = True, path_cookie = ''/'' \<rparr>,
       \<lparr> name_cookie = ''refreshToken'', value_cookie = TokenValue refreshToken,
         maxAge_cookie = 1000 * 60 * 60 * 24 * 7, httpOnly_cookie = True, path_cookie = ''/'' \<rparr>,
       \<lparr> name_cookie = ''login'', value_cookie = StringValue (login_user u),
         maxAge_cookie = 1000 * 60 * 60 * 24 * 7, httpOnly_cookie = False, path_cookie = ''/'' \<rparr>,
       \<lparr> name_cookie = ''id'', value_cookie = NumberValue (id_user u),
         maxAge_cookie = 1000 * 60 * 60 * 24 * 7, httpOnly_cookie = False, path_cookie = ''/'' \<rparr> ]"

text \<open>
  One clock reading \<open>now\<close> serves both signing calls of a request. The insertion
  of the refresh token is started between them and not awaited, so it stays started
  when the second signing call throws.
\<close>

definition login :: "bcrypt \<Rightarrow> env \<Rightarrow> nat \<Rightarrow> db \<Rightarrow> body \<Rightarrow> outcome" where
  "login bc e now d b =
     (case getUserByLogin d (login_body b) of
        Inl err \<Rightarrow> login_catch [] err
      | Inr None \<Rightarrow> replied (plain (Send 400 ''Login or password incorrect'')) []
      | Inr (Some u) \<Rightarrow>
          if \<not> comparePasswords bc u (password_body b)
          then replied (plain (Send 400 ''Login or password incorrect'')) []
          else
            (let userPayload = \<lparr> id_payload = id_user u, login_payload = login_user u \<rparr>
             in (case signRefreshToken e now userPayload of
                   Inl err \<Rightarrow> login_catch [] err
                 | Inr refreshToken \<Rightarrow>
                     (case signAccessToken e now userPayload of
                        Inl err \<Rightarrow> login_catch [CreateToken (id_user u) refreshToken] err
                      | Inr accessToken \<Rightarrow>
                          replied
                            \<lparr> cookies = login_cookies u accessToken refreshToken,
                              cleared = [],
                              reply = Redirect 200 ''/'' \<rparr>
                            [CreateToken (id_user u) refreshToken]))))"

subsection \<open>\<open>GET /logout\<close>\<close>

definition logout :: "locals \<Rightarrow> outcome" where
  "logout l =
     (if \<not> auth_locals l then replied (plain (Send 401 ''you are not logged in'')) []
      else replied
             \<lparr> cookies = [],
               cleared = [''accessToken'', ''refreshToken'', ''id'', ''login''],
               reply = Redirect 200 ''/'' \<rparr>
             [DeleteToken (refreshToken_locals l) (id_payload (user_locals l))])"

subsection \<open>Settling the calls a handler did not await\<close>

text \<open>
  A started call is pending until its promise settles; fulfilled, its write is in the
  database; rejected, nothing was written and nothing reaches the handler, whose
  \<open>try\<close> block was left long before.
\<close>

datatype settlement = Pending | Fulfilled | Rejected

fun perform :: "op \<Rightarrow> db \<Rightarrow> db" where
  "perform (CreateUser dto) d = createUser dto d"
| "perform (CreateToken user_id token) d = createToken user_id token d"
| "perform (DeleteToken token user_id) d = deleteToken token user_id d"

definition settle :: "outcome \<Rightarrow> settlement \<Rightarrow> db \<Rightarrow> db" where
  "settle out s d = (case s of Fulfilled \<Rightarrow> fold perform (detached out) d | _ \<Rightarrow> d)"


section \<open>Example data\<close>

text \<open>
  A configured environment, a user and the payload of that user, to run the definitions
  on. The password hasher of the examples is a stand-in with the interface of the
  library: it prefixes the data with a marker and compares by recomputing.
\<close>

abbreviation env_ex :: env where
  "env_ex \<equiv> \<lparr> ACCESS_SECRET_TOKEN = Some ''a-secret'', REFRESH_SECRET_TOKEN = Some ''r-secret'' \<rparr>"

abbreviation bcrypt_ex :: bcrypt where
  "bcrypt_ex \<equiv> \<lparr> hash_bcrypt = (\<lambda>data rounds. ''$2b$'' @ data),
                  compare_bcrypt = (\<lambda>data encrypted. encrypted = ''$2b$'' @ data) \<rparr>"

abbreviation alice :: user where
  "alice \<equiv> \<lparr> id_user = 1, login_user = ''alice'', password_user = ''$2b$pw1'' \<rparr>"

abbreviation alice_payload :: userPayload where
  "alice_payload \<equiv> \<lparr> id_payload = 1, login_payload = ''alice'' \<rparr>"

abbreviation access_ex :: jwt where
  "access_ex \<equiv> \<lparr> payload_jwt = alice_payload, iat_jwt = 100, exp_jwt = 110,
                  signature_jwt = HS256 (hmac_key ''a-secret'') alice_payload 100 110 \<rparr>"

abbreviation refresh_ex :: jwt where
  "refresh_ex \<equiv> \<lparr> payload_jwt = alice_payload, iat_jwt = 100, exp_jwt = 1296100,
                   signature_jwt = HS256 (hmac_key ''r-secret'') alice_payload 100 1296100 \<rparr>"

text \<open>
  A secret of 77 bytes. Its SHA-256 digest, in hexadecimal
  23dda55c25f2aea1b53bdc847e6375702278391b4b6e7dc8bfd481060625514f, is the UTF-8
  encoding of a string of 25 characters with no zero byte, so the digest is a value an
  environment variable can hold.
\<close>

abbreviation long_secret_ex :: string where
  "long_secret_ex \<equiv>
     ''innowise-lab-internship-refresh-secret-xxxxxxxxxxxxxxxxxxxxxxxxxxxxxx93575720''"

section \<open>Properties\<close>

subsection \<open>Signing\<close>

lemma timespan_10s: "timespan ''10s'' = Some 10"
  by (simp add: timespan_def digit_value_def)

lemma timespan_15d: "timespan ''15d'' = Some (15 * 24 * 60 * 60)"
  by (simp add: timespan_def digit_value_def)

lemma signAccessToken_eq:
  "signAccessToken e now p =
     (case ACCESS_SECRET_TOKEN e of
        None \<Rightarrow> Inl (JwtError ''secretOrPrivateKey must have a value'')
      | Some k \<Rightarrow>
          if k = [] then Inl (JwtError ''secretOrPrivateKey must have a value'')
          else Inr \<lparr> payload_jwt = p, iat_jwt = now, exp_jwt = now + 10,
                     signature_jwt = HS256 (hmac_key k) p now (now + 10) \<rparr>)"
  unfolding signAccessToken_def jwt_sign_def
  by (simp only: timespan_10s option.case)

lemma signRefreshToken_eq:
  "signRefreshToken e now p =
     (case REFRESH_SECRET_TOKEN e of
        None \<Rightarrow> Inl (JwtError ''secretOrPrivateKey must have a value'')
      | Some k \<Rightarrow>
          if k = [] then Inl (JwtError ''secretOrPrivateKey must have a value'')
          else Inr \<lparr> payload_jwt = p, iat_jwt = now, exp_jwt = now + 15 * 24 * 60 * 60,
                     signature_jwt = HS256 (hmac_key k) p now (now + 15 * 24 * 60 * 60) \<rparr>)"
  unfolding signRefreshToken_def jwt_sign_def
  by (simp only: timespan_15d option.case)

lemma signAccessToken_InrD:
  assumes "signAccessToken e now p = Inr t"
  obtains k where "ACCESS_SECRET_TOKEN e = Some k" and "k \<noteq> []"
    and "t = \<lparr> payload_jwt = p, iat_jwt = now, exp_jwt = now + 10,
               signature_jwt = HS256 (hmac_key k) p now (now + 10) \<rparr>"
  using assms by (auto simp: signAccessToken_eq split: option.splits if_splits)

lemma signRefreshToken_InrD:
  assumes "signRefreshToken e now p = Inr t"
  obtains k where "REFRESH_SECRET_TOKEN e = Some k" and "k \<noteq> []"
    and "t = \<lparr> payload_jwt = p, iat_jwt = now, exp_jwt = now + 15 * 24 * 60 * 60,
               signature_jwt = HS256 (hmac_key k) p now (now + 15 * 24 * 60 * 60) \<rparr>"
  using assms by (auto simp: signRefreshToken_eq split: option.splits if_splits)

lemma signAccessToken_ex: "signAccessToken env_ex 100 alice_payload = Inr access_ex"
  by (simp add: signAccessToken_eq)

lemma signRefreshToken_ex: "signRefreshToken env_ex 100 alice_payload = Inr refresh_ex"
  by (simp add: signRefreshToken_eq)

text \<open>
  C5. Every access token that \<open>signAccessToken\<close> produces expires 10 seconds after
  it was issued, every refresh token that \<open>signRefreshToken\<close> produces 15 days
  after; the refresh lifetime is 129600 times the access lifetime. An access token
  verifies against the access secret at the moment of issuance and at every clock
  reading before the tenth second, and is rejected as expired from the tenth second on.
\<close>

theorem token_lifetimes:
  "(signAccessToken e t0 p = Inr accessToken \<longrightarrow>
      iat_jwt accessToken = t0 \<and> exp_jwt accessToken = t0 + 10
      \<and> jwt_verify accessToken (ACCESS_SECRET_TOKEN e) t0 = Inr p
      \<and> (\<forall>now. now < t0 + 10 \<longrightarrow>
            jwt_verify accessToken (ACCESS_SECRET_TOKEN e) now = Inr p)
      \<and> (\<forall>now. t0 + 10 \<le> now \<longrightarrow>
            jwt_verify accessToken (ACCESS_SECRET_TOKEN e) now = Inl (JwtError ''jwt expired'')))
   \<and> (signRefreshToken e t1 q = Inr refreshToken \<longrightarrow>
      iat_jwt refreshToken = t1 \<and> exp_jwt refreshToken = t1 + 15 * 24 * 60 * 60)
   \<and> (signAccessToken e t0 p = Inr accessToken \<and> signRefreshToken e t1 q = Inr refreshToken \<longrightarrow>
      (exp_jwt accessToken - iat_jwt accessToken) * 129600
        = exp_jwt refreshToken - iat_jwt refreshToken
      \<and> exp_jwt accessToken - iat_jwt accessToken < exp_jwt refreshToken - iat_jwt refreshToken)"
proof (intro conjI impI)
  assume a: "signAccessToken e t0 p = Inr accessToken"
  from a show "iat_jwt accessToken = t0" by (rule signAccessToken_InrD) simp
  from a show "exp_jwt accessToken = t0 + 10" by (rule signAccessToken_InrD) simp
  from a show "jwt_verify accessToken (ACCESS_SECRET_TOKEN e) t0 = Inr p"
    by (rule signAccessToken_InrD) (simp add: jwt_verify_def)
  from a show "\<forall>now. now < t0 + 10 \<longrightarrow>
      jwt_verify accessToken (ACCESS_SECRET_TOKEN e) now = Inr p"
    by (rule signAccessToken_InrD) (simp add: jwt_verify_def)
  from a show "\<forall>now. t0 + 10 \<le> now \<longrightarrow>
      jwt_verify accessToken (ACCESS_SECRET_TOKEN e) now = Inl (JwtError ''jwt expired'')"
    by (rule signAccessToken_InrD) (simp add: jwt_verify_def)
next
  assume r: "signRefreshToken e t1 q = Inr refreshToken"
  from r show "iat_jwt refreshToken = t1" by (rule signRefreshToken_InrD) simp
  from r show "exp_jwt refreshToken = t1 + 15 * 24 * 60 * 60"
    by (rule signRefreshToken_InrD) simp
next
  assume both: "signAccessToken e t0 p = Inr accessToken \<and> signRefreshToken e t1 q = Inr refreshToken"
  then have a: "signAccessToken e t0 p = Inr accessToken"
    and r: "signRefreshToken e t1 q = Inr refreshToken" by simp_all
  from a have la: "exp_jwt accessToken - iat_jwt accessToken = 10"
    by (rule signAccessToken_InrD) simp
  from r have lr: "exp_jwt refreshToken - iat_jwt refreshToken = 1296000"
    by (rule signRefreshToken_InrD) simp
  show "(exp_jwt accessToken - iat_jwt accessToken) * 129600
        = exp_jwt refreshToken - iat_jwt refreshToken"
    by (simp add: la lr)
  show "exp_jwt accessToken - iat_jwt accessToken < exp_jwt refreshToken - iat_jwt refreshToken"
    by (simp add: la lr)
qed

theorem token_lifetimes_witness:
  "signAccessToken env_ex 100 alice_payload = Inr access_ex
   \<and> signRefreshToken env_ex 100 alice_payload = Inr refresh_ex
   \<and> exp_jwt access_ex = 100 + 10
   \<and> exp_jwt refresh_ex = 100 + 15 * 24 * 60 * 60
   \<and> jwt_verify access_ex (Some ''a-secret'') 100 = Inr alice_payload
   \<and> jwt_verify access_ex (Some ''a-secret'') 109 = Inr alice_payload
   \<and> jwt_verify access_ex (Some ''a-secret'') 110 = Inl (JwtError ''jwt expired'')"
proof -
  note a = signAccessToken_ex and r = signRefreshToken_ex
  have early: "(109::nat) < 100 + 10" and late: "(100::nat) + 10 \<le> 110" by simp_all
  note t = token_lifetimes [of env_ex 100 alice_payload access_ex 100 alice_payload refresh_ex]
  from t a r have now0: "jwt_verify access_ex (ACCESS_SECRET_TOKEN env_ex) 100 = Inr alice_payload"
    by blast
  from t a r
  have "(\<forall>now. now < 100 + 10 \<longrightarrow>
            jwt_verify access_ex (ACCESS_SECRET_TOKEN env_ex) now = Inr alice_payload)
      \<and> (\<forall>now. 100 + 10 \<le> now \<longrightarrow>
            jwt_verify access_ex (ACCESS_SECRET_TOKEN env_ex) now = Inl (JwtError ''jwt expired''))"
    by blast
  with early late
  have "jwt_verify access_ex (ACCESS_SECRET_TOKEN env_ex) 109 = Inr alice_payload
      \<and> jwt_verify access_ex (ACCESS_SECRET_TOKEN env_ex) 110 = Inl (JwtError ''jwt expired'')"
    by blast
  with a r now0 show ?thesis by simp
qed

subsection \<open>Two secrets\<close>

lemma length_bytes_of: "length (bytes_of n w) = n"
  by (simp add: bytes_of_def)

lemma length_sha256: "length (sha256 m) = 32"
  by (simp add: sha256_def digest_bytes_def Let_def length_bytes_of split: prod.splits)

text \<open>
  The key preparation is not injective: a secret longer than the block and its digest
  prepare to the same key, and so do a short secret and the same secret followed by a
  zero byte.
\<close>

lemma hmac_key_sha256:
  assumes "64 < length k"
  shows "hmac_key (sha256 k) = hmac_key k"
  using assms by (simp add: hmac_key_def length_sha256)

lemma hmac_key_zero_byte:
  assumes "length k < 64"
  shows "hmac_key (k @ [char_of (0 :: nat)]) = hmac_key k"
proof -
  from assms obtain n where "64 - length k = Suc n" and "63 - length k = n"
    by (cases "64 - length k") auto
  with assms show ?thesis by (simp add: hmac_key_def Let_def)
qed

lemma hmac_key_ex: "hmac_key ''a-secret'' \<noteq> hmac_key ''r-secret''"
  by (simp add: hmac_key_def)

lemma jwt_verify_signed:
  assumes "kv \<noteq> []"
  shows "jwt_verify \<lparr> payload_jwt = p, iat_jwt = t0, exp_jwt = t0 + span,
                       signature_jwt = HS256 (hmac_key ks) p t0 (t0 + span) \<rparr> (Some kv) now
       = (if hmac_key kv = hmac_key ks
          then (if t0 + span \<le> now then Inl (JwtError ''jwt expired'') else Inr p)
          else Inl (JwtError ''invalid signature''))"
  using assms by (auto simp: jwt_verify_def)

text \<open>
  C2, as stated, fails: the two tokens are signed with the values of two environment
  variables, and nothing makes those values differ or keeps them apart under HMAC. With
  the same value in both variables an access token verifies against the refresh secret.
  With two different values, a secret of 77 bytes for access tokens and its SHA-256
  digest for refresh tokens, it does so too, and a refresh token verifies against the
  access secret.
\<close>

theorem cross_verification_counterexample:
  "signAccessToken \<lparr> ACCESS_SECRET_TOKEN = Some ''s3cret'', REFRESH_SECRET_TOKEN = Some ''s3cret'' \<rparr>
       100 alice_payload
     = Inr \<lparr> payload_jwt = alice_payload, iat_jwt = 100, exp_jwt = 110,
             signature_jwt = HS256 (hmac_key ''s3cret'') alice_payload 100 110 \<rparr>
   \<and> jwt_verify \<lparr> payload_jwt = alice_payload, iat_jwt = 100, exp_jwt = 110,
                   signature_jwt = HS256 (hmac_key ''s3cret'') alice_payload 100 110 \<rparr>
        (REFRESH_SECRET_TOKEN
           \<lparr> ACCESS_SECRET_TOKEN = Some ''s3cret'', REFRESH_SECRET_TOKEN = Some ''s3cret'' \<rparr>) 100
     = Inr alice_payload
   \<and> long_secret_ex \<noteq> sha256 (long_secret_ex)
   \<and> signAccessToken \<lparr> ACCESS_SECRET_TOKEN = Some (long_secret_ex),
                       REFRESH_SECRET_TOKEN = Some (sha256 (long_secret_ex)) \<rparr>
       100 alice_payload
     = Inr \<lparr> payload_jwt = alice_payload, iat_jwt = 100, exp_jwt = 110,
             signature_jwt = HS256 (hmac_key (long_secret_ex)) alice_payload 100 110 \<rparr>
   \<and> jwt_verify \<lparr> payload_jwt = alice_payload, iat_jwt = 100, exp_jwt = 110,
                   signature_jwt = HS256 (hmac_key (long_secret_ex)) alice_payload 100 110 \<rparr>
        (Some (sha256 (long_secret_ex))) 100
     = Inr alice_payload
   \<and> signRefreshToken \<lparr> ACCESS_SECRET_TOKEN = Some (long_secret_ex),
                        REFRESH_SECRET_TOKEN = Some (sha256 (long_secret_ex)) \<rparr>
       100 alice_payload
     = Inr \<lparr> payload_jwt = alice_payload, iat_jwt = 100, exp_jwt = 1296100,
             signature_jwt = HS256 (hmac_key (sha256 (long_secret_ex))) alice_payload 100 1296100 \<rparr>
   \<and> jwt_verify \<lparr> payload_jwt = alice_payload, iat_jwt = 100, exp_jwt = 1296100,
                   signature_jwt = HS256 (hmac_key (sha256 (long_secret_ex))) alice_payload 100 1296100 \<rparr>
        (Some (long_secret_ex)) 100
     = Inr alice_payload"
proof -
  let ?k = long_secret_ex
  have long: "64 < length ?k" by simp
  have digest: "length (sha256 ?k) = 32" by (rule length_sha256)
  then have nonempty: "sha256 ?k \<noteq> []" by auto
  have "length ?k \<noteq> length (sha256 ?k)" by (simp add: digest)
  then have differ: "?k \<noteq> sha256 ?k" by metis
  note same = hmac_key_sha256 [OF long]
  have one: "signAccessToken \<lparr> ACCESS_SECRET_TOKEN = Some ''s3cret'', REFRESH_SECRET_TOKEN = Some ''s3cret'' \<rparr>
       100 alice_payload
     = Inr \<lparr> payload_jwt = alice_payload, iat_jwt = 100, exp_jwt = 110,
             signature_jwt = HS256 (hmac_key ''s3cret'') alice_payload 100 110 \<rparr>"
    by (simp add: signAccessToken_eq)
  have two: "jwt_verify \<lparr> payload_jwt = alice_payload, iat_jwt = 100, exp_jwt = 110,
                   signature_jwt = HS256 (hmac_key ''s3cret'') alice_payload 100 110 \<rparr>
        (REFRESH_SECRET_TOKEN
           \<lparr> ACCESS_SECRET_TOKEN = Some ''s3cret'', REFRESH_SECRET_TOKEN = Some ''s3cret'' \<rparr>) 100
     = Inr alice_payload"
    using jwt_verify_signed [of "''s3cret''" alice_payload 100 10 "''s3cret''" 100] by simp
  have three: "signAccessToken \<lparr> ACCESS_SECRET_TOKEN = Some ?k, REFRESH_SECRET_TOKEN = Some (sha256 ?k) \<rparr>
       100 alice_payload
     = Inr \<lparr> payload_jwt = alice_payload, iat_jwt = 100, exp_jwt = 110,
             signature_jwt = HS256 (hmac_key ?k) alice_payload 100 110 \<rparr>"
    by (simp add: signAccessToken_eq)
  have four: "jwt_verify \<lparr> payload_jwt = alice_payload, iat_jwt = 100, exp_jwt = 110,
                   signature_jwt = HS256 (hmac_key ?k) alice_payload 100 110 \<rparr>
        (Some (sha256 ?k)) 100
     = Inr alice_payload"
    using jwt_verify_signed [OF nonempty, of alice_payload 100 10 ?k 100] same by simp
  have five: "signRefreshToken \<lparr> ACCESS_SECRET_TOKEN = Some ?k, REFRESH_SECRET_TOKEN = Some (sha256 ?k) \<rparr>
       100 alice_payload
     = Inr \<lparr> payload_jwt = alice_payload, iat_jwt = 100, exp_jwt = 1296100,
             signature_jwt = HS256 (hmac_key (sha256 ?k)) alice_payload 100 1296100 \<rparr>"
    using nonempty by (simp add: signRefreshToken_eq)
  have six: "jwt_verify \<lparr> payload_jwt = alice_payload, iat_jwt = 100, exp_jwt = 1296100,
                   signature_jwt = HS256 (hmac_key (sha256 ?k)) alice_payload 100 1296100 \<rparr>
        (Some ?k) 100
     = Inr alice_payload"
    using jwt_verify_signed [of ?k alice_payload 100 1296000 "sha256 ?k" 100] same by simp
  from one two differ three four five six show ?thesis by (intro conjI)
qed

text \<open>
  C2, amended. With both secrets set, a token from \<open>signAccessToken\<close> verifies
  against the access secret, and its verification against the refresh secret at the
  moment of issuance fails exactly when the refresh secret is empty or the two secrets
  prepare to different HMAC keys; when the prepared keys differ it fails at every clock
  reading. The same holds for a token from \<open>signRefreshToken\<close> with the two
  secrets exchanged.
\<close>

theorem cross_verification_by_hmac_key:
  assumes "ACCESS_SECRET_TOKEN e = Some ka" and "REFRESH_SECRET_TOKEN e = Some kr"
  shows "(signAccessToken e t0 p = Inr accessToken \<longrightarrow>
            jwt_verify accessToken (ACCESS_SECRET_TOKEN e) t0 = Inr p
          \<and> ((\<exists>err. jwt_verify accessToken (REFRESH_SECRET_TOKEN e) t0 = Inl err)
               = (kr = [] \<or> hmac_key ka \<noteq> hmac_key kr))
          \<and> (hmac_key ka \<noteq> hmac_key kr \<longrightarrow>
               (\<exists>err. jwt_verify accessToken (REFRESH_SECRET_TOKEN e) now = Inl err)))
       \<and> (signRefreshToken e t0 p = Inr refreshToken \<longrightarrow>
            jwt_verify refreshToken (REFRESH_SECRET_TOKEN e) t0 = Inr p
          \<and> ((\<exists>err. jwt_verify refreshToken (ACCESS_SECRET_TOKEN e) t0 = Inl err)
               = (ka = [] \<or> hmac_key kr \<noteq> hmac_key ka))
          \<and> (hmac_key kr \<noteq> hmac_key ka \<longrightarrow>
               (\<exists>err. jwt_verify refreshToken (ACCESS_SECRET_TOKEN e) now = Inl err)))"
proof (intro conjI impI)
  assume a: "signAccessToken e t0 p = Inr accessToken"
  with assms(1) have ka: "ka \<noteq> []"
    and tok: "accessToken = \<lparr> payload_jwt = p, iat_jwt = t0, exp_jwt = t0 + 10,
                               signature_jwt = HS256 (hmac_key ka) p t0 (t0 + 10) \<rparr>"
    by (auto elim: signAccessToken_InrD)
  from ka show "jwt_verify accessToken (ACCESS_SECRET_TOKEN e) t0 = Inr p"
    by (simp add: assms(1) tok jwt_verify_signed)
  show "(\<exists>err. jwt_verify accessToken (REFRESH_SECRET_TOKEN e) t0 = Inl err)
      = (kr = [] \<or> hmac_key ka \<noteq> hmac_key kr)"
  proof (cases "kr = []")
    case True
    then show ?thesis by (simp add: assms(2) jwt_verify_def)
  next
    case False
    then show ?thesis by (auto simp: assms(2) tok jwt_verify_signed)
  qed
  assume "hmac_key ka \<noteq> hmac_key kr"
  then show "\<exists>err. jwt_verify accessToken (REFRESH_SECRET_TOKEN e) now = Inl err"
    by (cases "kr = []") (auto simp: assms(2) tok jwt_verify_signed jwt_verify_def)
next
  assume r: "signRefreshToken e t0 p = Inr refreshToken"
  with assms(2) have kr: "kr \<noteq> []"
    and tok: "refreshToken = \<lparr> payload_jwt = p, iat_jwt = t0, exp_jwt = t0 + 15 * 24 * 60 * 60,
                                signature_jwt = HS256 (hmac_key kr) p t0 (t0 + 15 * 24 * 60 * 60) \<rparr>"
    by (auto elim: signRefreshToken_InrD)
  from kr show "jwt_verify refreshToken (REFRESH_SECRET_TOKEN e) t0 = Inr p"
    by (simp add: assms(2) tok jwt_verify_signed)
  show "(\<exists>err. jwt_verify refreshToken (ACCESS_SECRET_TOKEN e) t0 = Inl err)
      = (ka = [] \<or> hmac_key kr \<noteq> hmac_key ka)"
  proof (cases "ka = []")
    case True
    then show ?thesis by (simp add: assms(1) jwt_verify_def)
  next
    case False
    then show ?thesis by (auto simp: assms(1) tok jwt_verify_signed)
  qed
  assume "hmac_key kr \<noteq> hmac_key ka"
  then show "\<exists>err. jwt_verify refreshToken (ACCESS_SECRET_TOKEN e) now = Inl err"
    by (cases "ka = []") (auto simp: assms(1) tok jwt_verify_signed jwt_verify_def)
qed

theorem cross_verification_by_hmac_key_witness:
  "signAccessToken env_ex 100 alice_payload = Inr access_ex
   \<and> signRefreshToken env_ex 100 alice_payload = Inr refresh_ex
   \<and> hmac_key ''a-secret'' \<noteq> hmac_key ''r-secret''
   \<and> jwt_verify access_ex (Some ''a-secret'') 100 = Inr alice_payload
   \<and> jwt_verify refresh_ex (Some ''r-secret'') 100 = Inr alice_payload
   \<and> (\<exists>err. jwt_verify access_ex (Some ''r-secret'') 100 = Inl err)
   \<and> (\<exists>err. jwt_verify refresh_ex (Some ''a-secret'') 100 = Inl err)"
proof -
  have ka: "ACCESS_SECRET_TOKEN env_ex = Some ''a-secret''"
    and kr: "REFRESH_SECRET_TOKEN env_ex = Some ''r-secret''" by simp_all
  note t = cross_verification_by_hmac_key
    [OF ka kr, of 100 alice_payload access_ex 100 refresh_ex]
  note differ = hmac_key_ex
  from t signAccessToken_ex differ
  have a: "jwt_verify access_ex (ACCESS_SECRET_TOKEN env_ex) 100 = Inr alice_payload
      \<and> (\<exists>err. jwt_verify access_ex (REFRESH_SECRET_TOKEN env_ex) 100 = Inl err)"
    by blast
  from t signRefreshToken_ex differ
  have r: "jwt_verify refresh_ex (REFRESH_SECRET_TOKEN env_ex) 100 = Inr alice_payload
      \<and> (\<exists>err. jwt_verify refresh_ex (ACCESS_SECRET_TOKEN env_ex) 100 = Inl err)"
    by metis
  from a r differ signAccessToken_ex signRefreshToken_ex show ?thesis by simp
qed

subsection \<open>Missing secrets\<close>





subsection \<open>The Session Registry\<close>

lemma exists_token_deleteToken [simp]:
  "\<not> exists_token (deleteToken token user_id d) token user_id"
  by (simp add: exists_token_def deleteToken_def)

lemma tokenRow_eta:
  "token_row r = token \<Longrightarrow> user_id_row r = user_id \<Longrightarrow>
     r = \<lparr> token_row = token, user_id_row = user_id \<rparr>"
  by (cases r) simp

lemma deleteToken_absent:
  assumes "\<not> exists_token d token user_id"
  shows "deleteToken token user_id d = d"
proof -
  have "\<not> (token_row r = token \<and> user_id_row r = user_id)" if "r \<in> set (tokens d)" for r
  proof
    assume "token_row r = token \<and> user_id_row r = user_id"
    then have "r = \<lparr> token_row = token, user_id_row = user_id \<rparr>"
      by (simp add: tokenRow_eta)
    with that assms show False by (simp add: exists_token_def)
  qed
  then have "filter (\<lambda>r. \<not> (token_row r = token \<and> user_id_row r = user_id)) (tokens d) = tokens d"
    by (simp add: filter_id_conv)
  then show ?thesis by (simp add: deleteToken_def)
qed

lemma deleteToken_idem:
  "deleteToken token user_id (deleteToken token user_id d) = deleteToken token user_id d"
  by (simp add: deleteToken_def)

lemma settle_logout:
  "auth_locals l \<Longrightarrow>
     settle (logout l) Fulfilled d = deleteToken (refreshToken_locals l) (id_payload (user_locals l)) d"
  by (simp add: settle_def logout_def replied_def)

text \<open>
  C1. Take a refresh token that \<open>signRefreshToken\<close> issued, a clock reading before
  its expiry, a registry holding the token's row for the user, and a logout by that
  user with that token whose deletion has completed. The token still verifies against
  the refresh secret (signature and expiry are fine) and was active before the logout;
  after it, \<open>verifyRefreshIsActive\<close> for the same token and user is false.
\<close>

theorem revocation_dominates_signature:
  assumes "signRefreshToken e t0 p = Inr refreshToken"
    and "now < t0 + 15 * 24 * 60 * 60"
    and "exists_token d refreshToken (id_payload p)"
    and "auth_locals l" and "refreshToken_locals l = refreshToken" and "user_locals l = p"
  shows "jwt_verify refreshToken (REFRESH_SECRET_TOKEN e) now = Inr p
       \<and> verifyRefreshIsActive e now d refreshToken (id_payload p)
       \<and> \<not> verifyRefreshIsActive e now (settle (logout l) Fulfilled d) refreshToken (id_payload p)"
proof -
  from assms(1,2) have valid: "jwt_verify refreshToken (REFRESH_SECRET_TOKEN e) now = Inr p"
    by (elim signRefreshToken_InrD) (simp add: jwt_verify_def)
  from assms(4-6) have "settle (logout l) Fulfilled d = deleteToken refreshToken (id_payload p) d"
    by (simp add: settle_logout)
  then have gone: "\<not> exists_token (settle (logout l) Fulfilled d) refreshToken (id_payload p)"
    by simp
  from valid assms(3) gone show ?thesis
    by (simp add: verifyRefreshIsActive_def)
qed

theorem revocation_dominates_signature_witness:
  "signRefreshToken env_ex 100 alice_payload = Inr refresh_ex
   \<and> jwt_verify refresh_ex (Some ''r-secret'') 200 = Inr alice_payload
   \<and> verifyRefreshIsActive env_ex 200
        (createRefreshToken 1 refresh_ex \<lparr> users = [alice], tokens = [], reachable = True \<rparr>)
        refresh_ex 1
   \<and> settle (logout \<lparr> auth_locals = True, refreshToken_locals = refresh_ex, user_locals = alice_payload \<rparr>)
        Fulfilled
        (createRefreshToken 1 refresh_ex \<lparr> users = [alice], tokens = [], reachable = True \<rparr>)
      = \<lparr> users = [alice], tokens = [], reachable = True \<rparr>
   \<and> \<not> verifyRefreshIsActive env_ex 200 \<lparr> users = [alice], tokens = [], reachable = True \<rparr> refresh_ex 1"
proof -
  let ?d = "createRefreshToken 1 refresh_ex \<lparr> users = [alice], tokens = [], reachable = True \<rparr>"
  let ?l = "\<lparr> auth_locals = True, refreshToken_locals = refresh_ex, user_locals = alice_payload \<rparr>"
  have fresh: "(200::nat) < 100 + 15 * 24 * 60 * 60" by simp
  have row: "exists_token ?d refresh_ex (id_payload alice_payload)"
    by (simp add: exists_token_def createRefreshToken_def)
  have after: "settle (logout ?l) Fulfilled ?d = \<lparr> users = [alice], tokens = [], reachable = True \<rparr>"
    by (simp add: settle_def logout_def replied_def deleteToken_def createRefreshToken_def)
  from revocation_dominates_signature [OF signRefreshToken_ex fresh row, of ?l]
  have "jwt_verify refresh_ex (REFRESH_SECRET_TOKEN env_ex) 200 = Inr alice_payload
       \<and> verifyRefreshIsActive env_ex 200 ?d refresh_ex (id_payload alice_payload)
       \<and> \<not> verifyRefreshIsActive env_ex 200 (settle (logout ?l) Fulfilled ?d) refresh_ex (id_payload alice_payload)"
    by simp
  with after signRefreshToken_ex show ?thesis by simp
qed

text \<open>
  C8. For an authenticated caller, a second logout with the same refresh token and user
  leaves the registry as the first one left it; deleting when no row matches changes
  nothing; and each call answers with the redirect (status 200) and logs no error.
\<close>

theorem logout_idempotent:
  assumes "auth_locals l"
  shows "settle (logout l) Fulfilled (settle (logout l) Fulfilled d) = settle (logout l) Fulfilled d
       \<and> (\<not> exists_token d (refreshToken_locals l) (id_payload (user_locals l)) \<longrightarrow>
            settle (logout l) Fulfilled d = d)
       \<and> sent (logout l)
          = Some \<lparr> cookies = [], cleared = [''accessToken'', ''refreshToken'', ''id'', ''login''],
                   reply = Redirect 200 ''/'' \<rparr>
       \<and> logged (logout l) = []"
proof (intro conjI impI)
  from assms show "settle (logout l) Fulfilled (settle (logout l) Fulfilled d) = settle (logout l) Fulfilled d"
    by (simp add: settle_logout deleteToken_idem)
  from assms show "sent (logout l)
          = Some \<lparr> cookies = [], cleared = [''accessToken'', ''refreshToken'', ''id'', ''login''],
                   reply = Redirect 200 ''/'' \<rparr>"
    by (simp add: logout_def replied_def)
  from assms show "logged (logout l) = []"
    by (simp add: logout_def replied_def)
next
  assume "\<not> exists_token d (refreshToken_locals l) (id_payload (user_locals l))"
  with assms show "settle (logout l) Fulfilled d = d"
    by (simp add: settle_logout deleteToken_absent)
qed

theorem logout_idempotent_witness:
  "settle (logout \<lparr> auth_locals = True, refreshToken_locals = refresh_ex, user_locals = alice_payload \<rparr>)
        Fulfilled
        \<lparr> users = [alice], tokens = [\<lparr> token_row = refresh_ex, user_id_row = 1 \<rparr>], reachable = True \<rparr>
      = \<lparr> users = [alice], tokens = [], reachable = True \<rparr>
   \<and> settle (logout \<lparr> auth_locals = True, refreshToken_locals = refresh_ex, user_locals = alice_payload \<rparr>)
        Fulfilled \<lparr> users = [alice], tokens = [], reachable = True \<rparr>
      = \<lparr> users = [alice], tokens = [], reachable = True \<rparr>
   \<and> sent (logout \<lparr> auth_locals = True, refreshToken_locals = refresh_ex, user_locals = alice_payload \<rparr>)
      = Some \<lparr> cookies = [], cleared = [''accessToken'', ''refreshToken'', ''id'', ''login''],
               reply = Redirect 200 ''/'' \<rparr>"
proof -
  let ?d = "\<lparr> users = [alice], tokens = [\<lparr> token_row = refresh_ex, user_id_row = 1 \<rparr>], reachable = True \<rparr>"
  let ?d' = "\<lparr> users = [alice], tokens = [], reachable = True \<rparr>"
  let ?l = "\<lparr> auth_locals = True, refreshToken_locals = refresh_ex, user_locals = alice_payload \<rparr>"
  have auth: "auth_locals ?l" by simp
  have once: "settle (logout ?l) Fulfilled ?d = ?d'"
    by (simp add: settle_def logout_def replied_def deleteToken_def)
  from logout_idempotent [OF auth, of ?d] once
  have "settle (logout ?l) Fulfilled ?d' = ?d'
      \<and> sent (logout ?l)
          = Some \<lparr> cookies = [], cleared = [''accessToken'', ''refreshToken'', ''id'', ''login''],
                   reply = Redirect 200 ''/'' \<rparr>"
    by simp
  with once show ?thesis by simp
qed

subsection \<open>Login\<close>

lemma login_rejected:
  assumes "getUserByLogin d (login_body b) = Inr None
         \<or> (\<exists>u. getUserByLogin d (login_body b) = Inr (Some u)
                 \<and> \<not> comparePasswords bc u (password_body b))"
  shows "login bc e now d b = replied (plain (Send 400 ''Login or password incorrect'')) []"
  using assms by (auto simp: login_def)

lemma login_accepted:
  assumes "getUserByLogin d (login_body b) = Inr (Some u)"
    and "comparePasswords bc u (password_body b)"
    and "signRefreshToken e now \<lparr> id_payload = id_user u, login_payload = login_user u \<rparr> = Inr refreshToken"
    and "signAccessToken e now \<lparr> id_payload = id_user u, login_payload = login_user u \<rparr> = Inr accessToken"
  shows "login bc e now d b =
           replied \<lparr> cookies = login_cookies u accessToken refreshToken, cleared = [],
                     reply = Redirect 200 ''/'' \<rparr>
                   [CreateToken (id_user u) refreshToken]"
  using assms by (simp add: login_def Let_def)

text \<open>
  C3. An unknown login and a wrong password for a known login get the same response,
  status 400 with the message \<open>Login or password incorrect\<close>. The status is 400
  here, while the handler's own API description announces 401 for this case and the
  logout handler answers an unauthenticated caller with 401.
\<close>

theorem login_rejection_status:
  "login bcrypt_ex env_ex 100 \<lparr> users = [alice], tokens = [], reachable = True \<rparr>
       \<lparr> login_body = ''bob'', password_body = ''pw1'' \<rparr>
     = replied (plain (Send 400 ''Login or password incorrect'')) []
   \<and> login bcrypt_ex env_ex 100 \<lparr> users = [alice], tokens = [], reachable = True \<rparr>
       \<lparr> login_body = ''alice'', password_body = ''wrong'' \<rparr>
     = replied (plain (Send 400 ''Login or password incorrect'')) []
   \<and> sent (logout \<lparr> auth_locals = False, refreshToken_locals = refresh_ex, user_locals = alice_payload \<rparr>)
     = Some (plain (Send 401 ''you are not logged in''))"
  by (simp add: login_def getUserByLogin_def findUser_def comparePasswords_def logout_def replied_def)

text \<open>
  C4, as stated, fails: a login with the right password does not always emit the
  tokens. With \<open>ACCESS_SECRET_TOKEN\<close> unset the refresh token is signed and its
  insertion started, then signing the access token throws and the response is 400
  \<open>unknow error\<close> with no cookie; with \<open>REFRESH_SECRET_TOKEN\<close> unset nothing is
  signed or started and the response is the same.
\<close>

theorem login_without_secret_counterexample:
  "getUserByLogin \<lparr> users = [alice], tokens = [], reachable = True \<rparr> ''alice'' = Inr (Some alice)
   \<and> comparePasswords bcrypt_ex alice ''pw1''
   \<and> login bcrypt_ex \<lparr> ACCESS_SECRET_TOKEN = None, REFRESH_SECRET_TOKEN = Some ''r-secret'' \<rparr> 100
         \<lparr> users = [alice], tokens = [], reachable = True \<rparr>
         \<lparr> login_body = ''alice'', password_body = ''pw1'' \<rparr>
     = \<lparr> sent = Some \<lparr> cookies = [], cleared = [], reply = Send 400 ''unknow error'' \<rparr>,
         detached = [CreateToken 1 refresh_ex],
         logged = [JwtError ''secretOrPrivateKey must have a value''] \<rparr>
   \<and> login bcrypt_ex \<lparr> ACCESS_SECRET_TOKEN = Some ''a-secret'', REFRESH_SECRET_TOKEN = None \<rparr> 100
         \<lparr> users = [alice], tokens = [], reachable = True \<rparr>
         \<lparr> login_body = ''alice'', password_body = ''pw1'' \<rparr>
     = \<lparr> sent = Some \<lparr> cookies = [], cleared = [], reply = Send 400 ''unknow error'' \<rparr>,
         detached = [],
         logged = [JwtError ''secretOrPrivateKey must have a value''] \<rparr>"
  by (simp add: login_def getUserByLogin_def findUser_def comparePasswords_def
      signAccessToken_eq signRefreshToken_eq login_catch_def plain_def Let_def)

text \<open>
  C4, amended. When the login is found, the password compares equal and both secrets
  are set and not empty, the handler builds the payload from the user's id and login
  alone, signs the refresh token and the access token over it, starts the insertion of
  the refresh token's row for the user (which, once fulfilled, appends that row to the
  registry), and answers with the redirect carrying both tokens as the cookies
  \<open>accessToken\<close> and \<open>refreshToken\<close>.
\<close>

theorem login_issues_both_tokens:
  assumes "getUserByLogin d (login_body b) = Inr (Some u)"
    and "comparePasswords bc u (password_body b)"
    and "ACCESS_SECRET_TOKEN e = Some ka" and "ka \<noteq> []"
    and "REFRESH_SECRET_TOKEN e = Some kr" and "kr \<noteq> []"
  shows "\<exists>accessToken refreshToken.
      signRefreshToken e now \<lparr> id_payload = id_user u, login_payload = login_user u \<rparr> = Inr refreshToken
    \<and> signAccessToken e now \<lparr> id_payload = id_user u, login_payload = login_user u \<rparr> = Inr accessToken
    \<and> payload_jwt refreshToken = \<lparr> id_payload = id_user u, login_payload = login_user u \<rparr>
    \<and> payload_jwt accessToken = \<lparr> id_payload = id_user u, login_payload = login_user u \<rparr>
    \<and> login bc e now d b =
         replied \<lparr> cookies = login_cookies u accessToken refreshToken, cleared = [],
                   reply = Redirect 200 ''/'' \<rparr>
                 [CreateToken (id_user u) refreshToken]
    \<and> map (\<lambda>c. (name_cookie c, value_cookie c)) (login_cookies u accessToken refreshToken)
        = [(''accessToken'', TokenValue accessToken), (''refreshToken'', TokenValue refreshToken),
           (''login'', StringValue (login_user u)), (''id'', NumberValue (id_user u))]
    \<and> tokens (settle (login bc e now d b) Fulfilled d)
        = tokens d @ [\<lparr> token_row = refreshToken, user_id_row = id_user u \<rparr>]"
proof -
  let ?p = "\<lparr> id_payload = id_user u, login_payload = login_user u \<rparr>"
  let ?r = "\<lparr> payload_jwt = ?p, iat_jwt = now, exp_jwt = now + 15 * 24 * 60 * 60,
              signature_jwt = HS256 (hmac_key kr) ?p now (now + 15 * 24 * 60 * 60) \<rparr>"
  let ?a = "\<lparr> payload_jwt = ?p, iat_jwt = now, exp_jwt = now + 10,
              signature_jwt = HS256 (hmac_key ka) ?p now (now + 10) \<rparr>"
  from assms(5,6) have r: "signRefreshToken e now ?p = Inr ?r"
    by (simp add: signRefreshToken_eq)
  from assms(3,4) have a: "signAccessToken e now ?p = Inr ?a"
    by (simp add: signAccessToken_eq)
  note out = login_accepted [OF assms(1,2) r a]
  have names: "map (\<lambda>c. (name_cookie c, value_cookie c)) (login_cookies u ?a ?r)
        = [(''accessToken'', TokenValue ?a), (''refreshToken'', TokenValue ?r),
           (''login'', StringValue (login_user u)), (''id'', NumberValue (id_user u))]"
    by (simp add: login_cookies_def)
  have row: "tokens (settle (login bc e now d b) Fulfilled d)
        = tokens d @ [\<lparr> token_row = ?r, user_id_row = id_user u \<rparr>]"
    by (simp add: out settle_def replied_def createToken_def createRefreshToken_def)
  show ?thesis
  proof (intro exI conjI)
    show "signRefreshToken e now ?p = Inr ?r" by (fact r)
    show "signAccessToken e now ?p = Inr ?a" by (fact a)
    show "payload_jwt ?r = ?p" by simp
    show "payload_jwt ?a = ?p" by simp
    show "login bc e now d b =
         replied \<lparr> cookies = login_cookies u ?a ?r, cleared = [], reply = Redirect 200 ''/'' \<rparr>
                 [CreateToken (id_user u) ?r]" by (fact out)
    show "map (\<lambda>c. (name_cookie c, value_cookie c)) (login_cookies u ?a ?r)
        = [(''accessToken'', TokenValue ?a), (''refreshToken'', TokenValue ?r),
           (''login'', StringValue (login_user u)), (''id'', NumberValue (id_user u))]"
      by (fact names)
    show "tokens (settle (login bc e now d b) Fulfilled d)
        = tokens d @ [\<lparr> token_row = ?r, user_id_row = id_user u \<rparr>]" by (fact row)
  qed
qed

theorem login_issues_both_tokens_witness:
  "login bcrypt_ex env_ex 100 \<lparr> users = [alice], tokens = [], reachable = True \<rparr>
       \<lparr> login_body = ''alice'', password_body = ''pw1'' \<rparr>
     = replied \<lparr> cookies = login_cookies alice access_ex refresh_ex, cleared = [],
                 reply = Redirect 200 ''/'' \<rparr>
               [CreateToken 1 refresh_ex]
   \<and> tokens (settle (login bcrypt_ex env_ex 100 \<lparr> users = [alice], tokens = [], reachable = True \<rparr>
                       \<lparr> login_body = ''alice'', password_body = ''pw1'' \<rparr>)
              Fulfilled \<lparr> users = [alice], tokens = [], reachable = True \<rparr>)
     = [\<lparr> token_row = refresh_ex, user_id_row = 1 \<rparr>]"
proof -
  let ?d = "\<lparr> users = [alice], tokens = [], reachable = True \<rparr>"
  let ?b = "\<lparr> login_body = ''alice'', password_body = ''pw1'' \<rparr>"
  have found: "getUserByLogin ?d (login_body ?b) = Inr (Some alice)"
    by (simp add: getUserByLogin_def findUser_def)
  have same: "comparePasswords bcrypt_ex alice (password_body ?b)"
    by (simp add: comparePasswords_def)
  have ka: "ACCESS_SECRET_TOKEN env_ex = Some ''a-secret''" and "''a-secret'' \<noteq> []"
    and kr: "REFRESH_SECRET_TOKEN env_ex = Some ''r-secret''" and "''r-secret'' \<noteq> []"
    by simp_all
  from login_issues_both_tokens [OF found same this, of 100]
  obtain accessToken refreshToken where
    r: "signRefreshToken env_ex 100 \<lparr> id_payload = id_user alice, login_payload = login_user alice \<rparr>
          = Inr refreshToken"
    and a: "signAccessToken env_ex 100 \<lparr> id_payload = id_user alice, login_payload = login_user alice \<rparr>
          = Inr accessToken"
    and out: "login bcrypt_ex env_ex 100 ?d ?b =
         replied \<lparr> cookies = login_cookies alice accessToken refreshToken, cleared = [],
                   reply = Redirect 200 ''/'' \<rparr>
                 [CreateToken (id_user alice) refreshToken]"
    and row: "tokens (settle (login bcrypt_ex env_ex 100 ?d ?b) Fulfilled ?d)
        = tokens ?d @ [\<lparr> token_row = refreshToken, user_id_row = id_user alice \<rparr>]"
    by blast
  from r signRefreshToken_ex have "refreshToken = refresh_ex" by simp
  moreover from a signAccessToken_ex have "accessToken = access_ex" by simp
  ultimately show ?thesis using out row by simp
qed

subsection \<open>Registration\<close>









subsection \<open>Responses and unawaited persistence\<close>




end
